theory Spec2Isabelle
  imports Complex_Main "HOL-Library.Product_Lexorder"
begin

section \<open>Numeric model\<close>

text \<open>
  The program computes with numpy float64 arrays. Finite float values are modelled by
  real numbers, so the rounding error of a single float operation is not part of the
  model. The values that numpy produces instead of raising (a division by zero gives an
  infinity or nan, the mean of an empty selection gives nan) are values of the model.
  No denominator of the program is a negative zero: both denominators are a square root
  and a rounded mean of square roots.
\<close>

datatype npfloat = Fin real | PInf | NInf | NaN

fun np_div :: "npfloat \<Rightarrow> npfloat \<Rightarrow> npfloat" where
  "np_div NaN _ = NaN"
| "np_div _ NaN = NaN"
| "np_div (Fin a) (Fin b) =
     (if b \<noteq> 0 then Fin (a / b)
      else if 0 < a then PInf else if a < 0 then NInf else NaN)"
| "np_div (Fin a) PInf = Fin 0"
| "np_div (Fin a) NInf = Fin 0"
| "np_div PInf (Fin b) = (if 0 \<le> b then PInf else NInf)"
| "np_div NInf (Fin b) = (if 0 \<le> b then NInf else PInf)"
| "np_div PInf PInf = NaN"
| "np_div PInf NInf = NaN"
| "np_div NInf PInf = NaN"
| "np_div NInf NInf = NaN"

text \<open>Comparisons of an array entry with a finite constant; every comparison with nan is false.\<close>

fun np_gt :: "npfloat \<Rightarrow> real \<Rightarrow> bool" where
  "np_gt (Fin a) c = (c < a)"
| "np_gt PInf c = True"
| "np_gt NInf c = False"
| "np_gt NaN c = False"

fun np_le :: "npfloat \<Rightarrow> real \<Rightarrow> bool" where
  "np_le (Fin a) c = (a \<le> c)"
| "np_le PInf c = False"
| "np_le NInf c = True"
| "np_le NaN c = False"

fun np_eq :: "npfloat \<Rightarrow> npfloat \<Rightarrow> bool" where
  "np_eq (Fin a) (Fin b) = (a = b)"
| "np_eq PInf PInf = True"
| "np_eq NInf NInf = True"
| "np_eq (Fin a) PInf = False"
| "np_eq (Fin a) NInf = False"
| "np_eq PInf (Fin b) = False"
| "np_eq NInf (Fin b) = False"
| "np_eq PInf NInf = False"
| "np_eq NInf PInf = False"
| "np_eq NaN _ = False"
| "np_eq _ NaN = False"

text \<open>\<open>np.round\<close> and \<open>np.around\<close> round half to even.\<close>

definition rint :: "real \<Rightarrow> real" where
  "rint x =
     (let f = \<lfloor>x\<rfloor>; r = x - of_int f
      in if r < 1 / 2 then of_int f
         else if 1 / 2 < r then of_int (f + 1)
         else if even f then of_int f else of_int (f + 1))"

text \<open>\<open>np.around(x, 5)\<close> scales by \<open>10^5\<close>, rounds to an integer and scales back.\<close>

definition around5 :: "real \<Rightarrow> real" where
  "around5 x = rint (x * 100000) / 100000"

fun np_around5 :: "npfloat \<Rightarrow> npfloat" where
  "np_around5 (Fin a) = Fin (around5 a)"
| "np_around5 PInf = PInf"
| "np_around5 NInf = NInf"
| "np_around5 NaN = NaN"

text \<open>
  \<open>np.round\<close> on an array entry: a finite value goes to the nearest integer, nan and the
  infinities stay as they are.
\<close>

fun np_round :: "npfloat \<Rightarrow> npfloat" where
  "np_round (Fin a) = Fin (rint a)"
| "np_round PInf = PInf"
| "np_round NInf = NInf"
| "np_round NaN = NaN"


text \<open>\<open>np.mean\<close> of an empty array is nan (with a RuntimeWarning, not an exception).\<close>

definition np_mean :: "real list \<Rightarrow> npfloat" where
  "np_mean xs = (if xs = [] then NaN else Fin (sum_list xs / real (length xs)))"

text \<open>\<open>np.diff\<close>: \<open>out[i] = a[i + 1] - a[i]\<close>.\<close>

definition np_diff :: "real list \<Rightarrow> real list" where
  "np_diff xs = map2 (\<lambda>a b. b - a) xs (tl xs)"

fun cumsum_from :: "real \<Rightarrow> real list \<Rightarrow> real list" where
  "cumsum_from acc [] = []"
| "cumsum_from acc (x # xs) = (acc + x) # cumsum_from (acc + x) xs"

definition np_cumsum :: "real list \<Rightarrow> real list" where
  "np_cumsum xs = cumsum_from 0 xs"

text \<open>\<open>np.unique\<close>: the sorted distinct values.\<close>

definition np_unique :: "real list \<Rightarrow> real list" where
  "np_unique xs = sort (remdups xs)"

text \<open>Boolean-mask indexing \<open>a[mask]\<close>.\<close>

definition mask_select :: "'a list \<Rightarrow> bool list \<Rightarrow> 'a list" where
  "mask_select xs keep = map fst (filter snd (zip xs keep))"

section \<open>Errors\<close>

datatype py_error = ValueError | IndexError | KeyError | CheckFailed

definition bind_err :: "py_error + 'a \<Rightarrow> ('a \<Rightarrow> py_error + 'b) \<Rightarrow> py_error + 'b" where
  "bind_err m f = (case m of Inl e \<Rightarrow> Inl e | Inr x \<Rightarrow> f x)"

text \<open>A list comprehension whose element expression may raise: the first error ends it.\<close>

fun collect :: "(py_error + 'a) list \<Rightarrow> py_error + 'a list" where
  "collect [] = Inr []"
| "collect (r # rs) =
     (case r of Inl e \<Rightarrow> Inl e
      | Inr x \<Rightarrow> (case collect rs of Inl e \<Rightarrow> Inl e | Inr xs \<Rightarrow> Inr (x # xs)))"

text \<open>\<open>np.min\<close> of an empty array raises ValueError.\<close>

definition np_min :: "real list \<Rightarrow> py_error + real" where
  "np_min xs = (if xs = [] then Inl ValueError else Inr (min_list xs))"

definition list_getitem :: "'a list \<Rightarrow> nat \<Rightarrow> py_error + 'a" where
  "list_getitem xs i = (if i < length xs then Inr (xs ! i) else Inl IndexError)"

section \<open>Slice metadata and the file stack (imageITKFileStack.py)\<close>

type_synonym vec3 = "real \<times> real \<times> real"
type_synonym mat33 = "vec3 \<times> vec3 \<times> vec3"

text \<open>
  The ITK metadata object of a slice, in the source axis order \<open>(x, y, z)\<close>, as read by
  \<open>GetOrigin\<close>, \<open>GetSpacing\<close>, \<open>GetDirection\<close> and \<open>GetSize\<close>.
\<close>

record itk_metadata =
  GetOrigin :: vec3
  GetSpacing :: vec3
  GetDirection :: mat33
  GetSize :: "nat \<times> nat \<times> nat"

record image_file =
  file_path :: string
  image_metadata :: itk_metadata

datatype warning = InconsistentSliceDistance "real list"

text \<open>
  The attributes of \<open>ImageITKFileStack\<close> that \<open>complete\<close> reads and writes. The stack's own
  \<open>image_metadata\<close> property belongs to the parent class; it is the field
  \<open>stack_image_metadata\<close>. \<open>emitted\<close> collects the calls of \<open>warnings.warn\<close>.
\<close>

record file_stack =
  image_file_objects :: "image_file list"
  stack_image_metadata :: itk_metadata
  image_origin :: "vec3 option"
  image_spacing :: "(npfloat \<times> npfloat \<times> npfloat) option"
  image_orientation :: "npfloat list list option"
  image_dimension :: "(nat \<times> nat \<times> nat) option"
  slice_positions :: "real list option"
  emitted :: "warning list"

text \<open>\<open>np.array(t)[::-1]\<close> on a triple.\<close>

fun flip3 :: "'a \<times> 'a \<times> 'a \<Rightarrow> 'a \<times> 'a \<times> 'a" where
  "flip3 (a, b, c) = (c, b, a)"

fun ravel33 :: "mat33 \<Rightarrow> real list" where
  "ravel33 ((a, b, c), (d, e, f), (g, h, i)) = [a, b, c, d, e, f, g, h, i]"

fun reshape33 :: "real list \<Rightarrow> py_error + real list list" where
  "reshape33 [a, b, c, d, e, f, g, h, i] = Inr [[a, b, c], [d, e, f], [g, h, i]]"
| "reshape33 _ = Inl ValueError"

subsection \<open>The position table\<close>

text \<open>
  A row of the pandas DataFrame \<open>position_table\<close>. \<open>index_label\<close> is the row's label in the
  DataFrame's index: the constructor labels the rows \<open>0, 1, ...\<close>, and \<open>sort_values\<close>
  (called without \<open>ignore_index\<close>) moves each label with its row.
\<close>

record table_row =
  index_label :: nat
  original_object_order :: nat
  position_z :: real
  position_y :: real
  position_x :: real

definition slice_row :: "nat \<times> image_file \<Rightarrow> table_row" where
  "slice_row p =
     (case p of (ii, image_object) \<Rightarrow>
        (case flip3 (GetOrigin (image_metadata image_object)) of (oz, oy, ox) \<Rightarrow>
           \<lparr>index_label = ii, original_object_order = ii,
            position_z = oz, position_y = oy, position_x = ox\<rparr>))"

definition unsorted_table :: "image_file list \<Rightarrow> table_row list" where
  "unsorted_table objs = map slice_row (enumerate 0 objs)"

definition row_key :: "table_row \<Rightarrow> real \<times> real \<times> real" where
  "row_key r = (position_z r, position_y r, position_x r)"

text \<open>
  \<open>sort_values(by=["position_z", "position_y", "position_x"])\<close>: with several columns
  pandas sorts with a lexicographic, stable indexer.
\<close>

definition sort_values :: "table_row list \<Rightarrow> table_row list" where
  "sort_values t = sort_key row_key t"

definition position_table :: "image_file list \<Rightarrow> table_row list" where
  "position_table objs = sort_values (unsorted_table objs)"

text \<open>
  \<open>position_table.original_object_order[ii]\<close>: the index of the Series holds integers, so
  an integer key is looked up as a label (not as a position), and a missing label raises
  KeyError.
\<close>

definition series_getitem :: "table_row list \<Rightarrow> nat \<Rightarrow> py_error + nat" where
  "series_getitem t ii =
     (case find (\<lambda>r. index_label r = ii) t of
        None \<Rightarrow> Inl KeyError
      | Some r \<Rightarrow> Inr (original_object_order r))"

definition reorder_objects :: "image_file list \<Rightarrow> table_row list \<Rightarrow> py_error + image_file list" where
  "reorder_objects objs t =
     collect (map (\<lambda>ii. bind_err (series_getitem t ii) (list_getitem objs)) [0..<length t])"

subsection \<open>Slice spacing\<close>

definition image_slice_spacing :: "table_row list \<Rightarrow> real list" where
  "image_slice_spacing t =
     map (\<lambda>(dx, dy, dz). sqrt (dx\<^sup>2 + dy\<^sup>2 + dz\<^sup>2))
       (zip (np_diff (map position_x t))
         (zip (np_diff (map position_y t)) (np_diff (map position_z t))))"

definition spacing_multiplier :: "real list \<Rightarrow> real \<Rightarrow> npfloat list" where
  "spacing_multiplier gaps min_slice_spacing =
     map (\<lambda>d. np_div (Fin d) (Fin min_slice_spacing)) gaps"

definition irregular :: "npfloat list \<Rightarrow> bool" where
  "irregular mult = list_ex (\<lambda>m. np_gt m (12 / 10)) mult"

definition resolved_spacing :: "real list \<Rightarrow> npfloat list \<Rightarrow> npfloat" where
  "resolved_spacing gaps mult =
     np_around5 (np_mean (mask_select gaps (map (\<lambda>m. np_le m (12 / 10)) mult)))"

definition recorded_positions :: "real list \<Rightarrow> real list" where
  "recorded_positions gaps = np_cumsum (0 # map around5 gaps)"

subsection \<open>Spacing, orientation and dimension of the stack\<close>

text \<open>Lines 82 to 86, on the metadata of \<open>self.image_file_objects[0]\<close>.\<close>

definition assembled_spacing :: "itk_metadata \<Rightarrow> npfloat \<Rightarrow> npfloat \<times> npfloat \<times> npfloat" where
  "assembled_spacing md slice_spacing =
     (case flip3 (GetSpacing md) of (sz, sy, sx) \<Rightarrow>
        if np_eq (Fin sz) slice_spacing then (Fin sz, Fin sy, Fin sx)
        else (slice_spacing, Fin sy, Fin sx))"

text \<open>Lines 93 to 97.\<close>

definition z_orientation :: "table_row list \<Rightarrow> npfloat \<Rightarrow> py_error + npfloat list" where
  "z_orientation t slice_spacing =
     bind_err (np_min (np_diff (map position_z t))) (\<lambda>mz.
     bind_err (np_min (np_diff (map position_y t))) (\<lambda>my.
     bind_err (np_min (np_diff (map position_x t))) (\<lambda>mx.
       Inr (map (\<lambda>v. np_div (Fin (around5 v)) slice_spacing) [mz, my, mx]))))"

text \<open>Lines 89 to 101.\<close>

definition assembled_orientation ::
  "itk_metadata \<Rightarrow> table_row list \<Rightarrow> npfloat \<Rightarrow> py_error + npfloat list list" where
  "assembled_orientation md t slice_spacing =
     bind_err (reshape33 (rev (ravel33 (GetDirection md)))) (\<lambda>orientation.
     bind_err (z_orientation t slice_spacing) (\<lambda>zo.
       Inr ((map (map Fin) orientation)[0 := zo])))"

text \<open>Lines 104 to 106.\<close>

definition assembled_dimension :: "itk_metadata \<Rightarrow> table_row list \<Rightarrow> nat \<times> nat \<times> nat" where
  "assembled_dimension md t =
     (case flip3 (GetSize md) of (dz, dy, dx) \<Rightarrow> (length t, dy, dx))"

subsection \<open>\<open>ImageITKFileStack.complete\<close>\<close>

text \<open>
  Lines 27 to 106 of \<open>complete\<close>. The calls before them (\<open>load_metadata\<close>,
  \<open>_complete_modality\<close>, \<open>_complete_sample_name\<close>) belong to the parent class and fill the
  metadata that the record holds. Where the code raises, the result is the error alone:
  the attributes assigned before the exception (the slice list and \<open>image_origin\<close>, lines
  48 to 54) are not reported.
\<close>

definition complete_geometry :: "file_stack \<Rightarrow> py_error + file_stack" where
  "complete_geometry st =
     (let t = position_table (image_file_objects st)
      in bind_err (reorder_objects (image_file_objects st) t) (\<lambda>objs.
         bind_err (list_getitem objs 0) (\<lambda>first.
         let gaps = image_slice_spacing t
         in bind_err (np_min gaps) (\<lambda>min_slice_spacing.
            let mult = spacing_multiplier gaps min_slice_spacing;
                slice_spacing = resolved_spacing gaps mult
            in bind_err (assembled_orientation (image_metadata first) t slice_spacing)
                 (\<lambda>orientation.
                 Inr (st\<lparr>image_file_objects := objs,
                          image_origin := Some (flip3 (GetOrigin (image_metadata first))),
                          image_spacing :=
                            Some (assembled_spacing (image_metadata first) slice_spacing),
                          image_orientation := Some orientation,
                          image_dimension :=
                            Some (assembled_dimension (stack_image_metadata st) t),
                          slice_positions :=
                            (if irregular mult then Some (recorded_positions gaps)
                             else slice_positions st),
                          emitted :=
                            (if irregular mult
                             then emitted st @ [InconsistentSliceDistance (np_unique gaps)]
                             else emitted st)\<rparr>))))))"

text \<open>
  Line 109: \<open>self.check(raise_error=True, remove_metadata=False)\<close>. \<open>check\<close> belongs to the
  parent class; it is the parameter \<open>chk\<close>, which says whether the check passes.
\<close>

definition complete :: "(file_stack \<Rightarrow> bool) \<Rightarrow> file_stack \<Rightarrow> py_error + file_stack" where
  "complete chk st =
     bind_err (complete_geometry st) (\<lambda>st'. if chk st' then Inr st' else Inl CheckFailed)"

section \<open>The stack geometry in the words of the specification\<close>

text \<open>
  The quantities that the specification names, defined slice by slice rather than column
  by column: the canonical origin of a slice, the origins in ascending order (primary
  key z, then y, then x), the Euclidean distance between consecutive origins, the
  multiplier of a gap, the mean of the gaps whose multiplier is at most 1.2, the
  cumulative positions, and the smallest positional delta along an axis.
\<close>

definition canonical_origin :: "image_file \<Rightarrow> vec3" where
  "canonical_origin image_object = flip3 (GetOrigin (image_metadata image_object))"

definition sorted_origins :: "image_file list \<Rightarrow> vec3 list" where
  "sorted_origins objs = sort (map canonical_origin objs)"

fun euclidean_distance :: "vec3 \<Rightarrow> vec3 \<Rightarrow> real" where
  "euclidean_distance (z, y, x) (z', y', x') =
     sqrt ((z' - z)\<^sup>2 + (y' - y)\<^sup>2 + (x' - x)\<^sup>2)"

definition consecutive_distances :: "vec3 list \<Rightarrow> real list" where
  "consecutive_distances ps = map2 euclidean_distance ps (tl ps)"

definition stack_gaps :: "file_stack \<Rightarrow> real list" where
  "stack_gaps st = consecutive_distances (sorted_origins (image_file_objects st))"

definition gap_multiplier :: "real list \<Rightarrow> real \<Rightarrow> npfloat" where
  "gap_multiplier gaps d = np_div (Fin d) (Fin (Min (set gaps)))"

definition some_gap_irregular :: "real list \<Rightarrow> bool" where
  "some_gap_irregular gaps = (\<exists>d \<in> set gaps. np_gt (gap_multiplier gaps d) (12 / 10))"

definition mean_of_regular_gaps :: "real list \<Rightarrow> npfloat" where
  "mean_of_regular_gaps gaps =
     np_around5 (np_mean (filter (\<lambda>d. np_le (gap_multiplier gaps d) (12 / 10)) gaps))"

definition cumulative_positions :: "real list \<Rightarrow> real list" where
  "cumulative_positions gaps =
     map (\<lambda>k. sum_list (take k (map around5 gaps))) [0..<Suc (length gaps)]"

definition smallest_delta :: "(vec3 \<Rightarrow> real) \<Rightarrow> vec3 list \<Rightarrow> real" where
  "smallest_delta axis ps = Min (set (map2 (\<lambda>p q. axis q - axis p) ps (tl ps)))"

fun axis_z :: "vec3 \<Rightarrow> real" where "axis_z (z, y, x) = z"
fun axis_y :: "vec3 \<Rightarrow> real" where "axis_y (z, y, x) = y"
fun axis_x :: "vec3 \<Rightarrow> real" where "axis_x (z, y, x) = x"

text \<open>The direction matrix with its flattened entries reversed, as rows of a 3 by 3 matrix.\<close>

fun reversed_direction :: "mat33 \<Rightarrow> npfloat list list" where
  "reversed_direction ((a, b, c), (d, e, f), (g, h, i)) =
     [[Fin i, Fin h, Fin g], [Fin f, Fin e, Fin d], [Fin c, Fin b, Fin a]]"

text \<open>
  The replacement z-row as the code computes it: each smallest delta is rounded to five
  decimals before the division.
\<close>

definition rounded_delta_row :: "vec3 list \<Rightarrow> npfloat \<Rightarrow> npfloat list" where
  "rounded_delta_row ps slice_spacing =
     map (\<lambda>axis. np_div (Fin (around5 (smallest_delta axis ps))) slice_spacing)
       [axis_z, axis_y, axis_x]"

text \<open>The replacement z-row as the specification words it: the smallest deltas, not rounded.\<close>

definition plain_delta_row :: "vec3 list \<Rightarrow> npfloat \<Rightarrow> npfloat list" where
  "plain_delta_row ps slice_spacing =
     map (\<lambda>axis. np_div (Fin (smallest_delta axis ps)) slice_spacing)
       [axis_z, axis_y, axis_x]"

text \<open>The slice that comes first in ascending order of the canonical origin (stable).\<close>

definition first_sorted_slice :: "image_file list \<Rightarrow> image_file" where
  "first_sorted_slice objs = hd (sort_key canonical_origin objs)"

section \<open>Image objects (ct_image.py)\<close>

text \<open>
  Image objects live in a store; a reference is an index into it, and a new object is
  appended. The class of an object is its intensity kind: \<open>CTImage\<close> holds Hounsfield
  units, \<open>GenericImage\<close> an arbitrary scale. The voxel grid is the list of its values,
  which are floats: nan and the infinities can be among them.
  The geometry attributes of an image (\<open>image_origin\<close>, \<open>image_spacing\<close>,
  \<open>image_orientation\<close>, \<open>image_dimension\<close>) carry the prefix \<open>geom\<close> here, since the
  stack's attributes of the same names are fields already.
\<close>

datatype image_class = CTImage | GenericImage

record image_obj =
  obj_class :: image_class
  image_data :: "npfloat list option"
  geom_origin :: "vec3 option"
  geom_spacing :: "(npfloat \<times> npfloat \<times> npfloat) option"
  geom_orientation :: "npfloat list list option"
  geom_dimension :: "(nat \<times> nat \<times> nat) option"
  diagnostics :: "string list"

type_synonym ref = nat
type_synonym store = "image_obj list"

record normalise_args =
  normalisation_method :: "string option"
  intensity_range :: "(real \<times> real) option"
  saturation_range :: "(real \<times> real) option"
  roi_mask :: "bool list option"

definition get_default_lowest_intensity :: real where
  "get_default_lowest_intensity = - 1000"

text \<open>\<open>CTImage.update_image_data\<close>.\<close>

definition update_image_data :: "store \<Rightarrow> ref \<Rightarrow> store" where
  "update_image_data s self =
     (case image_data (s ! self) of
        None \<Rightarrow> s
      | Some d \<Rightarrow> s[self := (s ! self)\<lparr>image_data := Some (map np_round d)\<rparr>])"

text \<open>
  Modelled from the spec: the constructor of \<open>GenericImage\<close> is not among the sources. It
  makes a new entity of the generic variant that holds the voxel data it is given, with
  no geometry and no diagnostics yet.
\<close>

definition GenericImage_init :: "npfloat list option \<Rightarrow> image_obj" where
  "GenericImage_init d =
     \<lparr>obj_class = GenericImage, image_data = d, geom_origin = None, geom_spacing = None,
      geom_orientation = None, geom_dimension = None, diagnostics = []\<rparr>"

definition new_object :: "store \<Rightarrow> image_obj \<Rightarrow> store \<times> ref" where
  "new_object s obj = (s @ [obj], length s)"

text \<open>
  Modelled from the spec: \<open>update_from_template\<close> is not among the sources. It is the
  template copy of section 4.4: a field-by-field copy of origin, spacing, orientation
  and dimension and of the accumulated diagnostics from the template into the receiver.
\<close>

definition update_from_template :: "store \<Rightarrow> ref \<Rightarrow> ref \<Rightarrow> store" where
  "update_from_template s self template =
     s[self := (s ! self)\<lparr>geom_origin := geom_origin (s ! template),
                            geom_spacing := geom_spacing (s ! template),
                            geom_orientation := geom_orientation (s ! template),
                            geom_dimension := geom_dimension (s ! template),
                            diagnostics := diagnostics (s ! template)\<rparr>]"

text \<open>
  Lines 46 to 49 and 63 to 66: the new generic image built from the image that the
  parent's method returned.
\<close>

definition demote :: "store \<Rightarrow> ref \<Rightarrow> store \<times> ref" where
  "demote s img =
     (case new_object s (GenericImage_init (image_data (s ! img))) of
        (s', new_image) \<Rightarrow> (update_from_template s' new_image img, new_image))"

text \<open>
  \<open>CTImage.normalise_intensities\<close> and \<open>CTImage.scale_intensities\<close>. The methods of the
  parent class \<open>GenericImage\<close> that they call through \<open>super()\<close> are not among the sources:
  they are the parameter \<open>super\<close>, which takes the arguments, the store and the receiver and
  either raises or returns the store it leaves and the image it returns.
\<close>

definition normalise_intensities ::
  "(normalise_args \<Rightarrow> store \<Rightarrow> ref \<Rightarrow> py_error + store \<times> ref) \<Rightarrow>
   normalise_args \<Rightarrow> store \<Rightarrow> ref \<Rightarrow> py_error + store \<times> ref" where
  "normalise_intensities super args s self =
     bind_err (super args s self) (\<lambda>(s1, img).
       if image_data (s1 ! img) = None then Inr (s1, self)
       else if normalisation_method args = None \<or> normalisation_method args = Some ''none''
       then Inr (s1, self)
       else Inr (demote s1 img))"

definition scale_intensities ::
  "(real \<Rightarrow> store \<Rightarrow> ref \<Rightarrow> py_error + store \<times> ref) \<Rightarrow>
   real \<Rightarrow> store \<Rightarrow> ref \<Rightarrow> py_error + store \<times> ref" where
  "scale_intensities super scale s self =
     bind_err (super scale s self) (\<lambda>(s1, img).
       if image_data (s1 ! img) = None then Inr (s1, self)
       else if scale = 1 then Inr (s1, self)
       else Inr (demote s1 img))"

section \<open>Example stacks\<close>

text \<open>
  Slices with the identity direction matrix, a stack that holds them as \<open>complete\<close> finds
  it (no geometry assembled yet, no warning emitted), and the stacks that the theorems
  below are instantiated with.
\<close>

definition identity_direction :: mat33 where
  "identity_direction = ((1, 0, 0), (0, 1, 0), (0, 0, 1))"

definition slice_at :: "string \<Rightarrow> vec3 \<Rightarrow> vec3 \<Rightarrow> image_file" where
  "slice_at name origin spacing =
     \<lparr>file_path = name,
      image_metadata = \<lparr>GetOrigin = origin, GetSpacing = spacing,
                        GetDirection = identity_direction, GetSize = (4, 4, 1)\<rparr>\<rparr>"

definition stack_of :: "image_file list \<Rightarrow> file_stack" where
  "stack_of objs =
     \<lparr>image_file_objects = objs,
      stack_image_metadata = \<lparr>GetOrigin = (0, 0, 0), GetSpacing = (1, 1, 1),
                              GetDirection = identity_direction, GetSize = (4, 4, 1)\<rparr>,
      image_origin = None, image_spacing = None, image_orientation = None,
      image_dimension = None, slice_positions = None, emitted = []\<rparr>"

definition regular_stack :: file_stack where
  "regular_stack =
     stack_of [slice_at ''b'' (0, 0, 1) (1, 1, 1), slice_at ''a'' (0, 0, 0) (1, 1, 1),
               slice_at ''c'' (0, 0, 2) (1, 1, 1)]"

definition missing_slice_stack :: file_stack where
  "missing_slice_stack =
     stack_of [slice_at ''a'' (0, 0, 0) (1, 1, 1), slice_at ''b'' (0, 0, 1) (1, 1, 1),
               slice_at ''d'' (0, 0, 3) (1, 1, 1)]"

definition swapped_stack :: file_stack where
  "swapped_stack =
     stack_of [slice_at ''upper'' (0, 0, 2) (5 / 10, 5 / 10, 2),
               slice_at ''lower'' (0, 0, 0) (7 / 10, 7 / 10, 3)]"

definition single_slice_stack :: file_stack where
  "single_slice_stack = stack_of [slice_at ''only'' (0, 0, 0) (1, 1, 1)]"

definition fraction_stack :: file_stack where
  "fraction_stack =
     stack_of [slice_at ''a'' (0, 0, 0) (1, 1, 1),
               slice_at ''b'' (0, 0, 123456 / 1000000) (1, 1, 1)]"

text \<open>
  The orientation and the spacing that the specification describes, computed from the
  slice that is first in sorted order and, for the orientation, from the smallest deltas
  without rounding.
\<close>

definition claimed_orientation :: "file_stack \<Rightarrow> npfloat list list" where
  "claimed_orientation st =
     (reversed_direction
        (GetDirection (image_metadata (first_sorted_slice (image_file_objects st)))))
       [0 := plain_delta_row (sorted_origins (image_file_objects st))
               (mean_of_regular_gaps (stack_gaps st))]"

definition claimed_spacing :: "file_stack \<Rightarrow> npfloat \<times> npfloat \<times> npfloat" where
  "claimed_spacing st =
     assembled_spacing (image_metadata (first_sorted_slice (image_file_objects st)))
       (mean_of_regular_gaps (stack_gaps st))"

section \<open>Example images\<close>

text \<open>
  A CT image with a geometry and one diagnostic, and two parent methods to instantiate
  the parameter \<open>super\<close> with. The parent class is not among the sources, and the CT
  methods read nothing of what the parent's method returns but \<open>image_data\<close>. Both
  parents here change the voxel data of the receiver in place and return the receiver,
  and both return it untouched when it holds no data or the transformation is the
  identity.
\<close>

definition voxels :: "real list \<Rightarrow> npfloat list option" where
  "voxels xs = Some (map Fin xs)"

definition ct_volume :: "npfloat list option \<Rightarrow> image_obj" where
  "ct_volume d =
     \<lparr>obj_class = CTImage, image_data = d, geom_origin = Some (0, 1, 2),
      geom_spacing = Some (Fin (1 / 2), Fin 1, Fin (3 / 2)),
      geom_orientation =
        Some [[Fin 1, Fin 0, Fin 0], [Fin 0, Fin 1, Fin 0], [Fin 0, Fin 0, Fin 1]],
      geom_dimension = Some (1, 1, 3), diagnostics = [''irregular slice spacing'']\<rparr>"

text \<open>A float times a finite factor, and a float minus a finite value.\<close>

fun np_times :: "real \<Rightarrow> npfloat \<Rightarrow> npfloat" where
  "np_times c (Fin a) = Fin (a * c)"
| "np_times c PInf = (if 0 < c then PInf else if c < 0 then NInf else NaN)"
| "np_times c NInf = (if 0 < c then NInf else if c < 0 then PInf else NaN)"
| "np_times c NaN = NaN"

fun np_minus :: "real \<Rightarrow> npfloat \<Rightarrow> npfloat" where
  "np_minus c (Fin a) = Fin (a - c)"
| "np_minus c PInf = PInf"
| "np_minus c NInf = NInf"
| "np_minus c NaN = NaN"

definition scale_in_place :: "real \<Rightarrow> store \<Rightarrow> ref \<Rightarrow> py_error + store \<times> ref" where
  "scale_in_place scale s self =
     (case image_data (s ! self) of
        None \<Rightarrow> Inr (s, self)
      | Some d \<Rightarrow>
          if scale = 1 then Inr (s, self)
          else Inr (s[self := (s ! self)\<lparr>image_data := Some (map (np_times scale) d)\<rparr>], self))"

definition normalise_in_place ::
  "normalise_args \<Rightarrow> store \<Rightarrow> ref \<Rightarrow> py_error + store \<times> ref" where
  "normalise_in_place args s self =
     (case image_data (s ! self) of
        None \<Rightarrow> Inr (s, self)
      | Some d \<Rightarrow>
          if normalisation_method args = None \<or> normalisation_method args = Some ''none''
          then Inr (s, self)
          else (case intensity_range args of
                  None \<Rightarrow> Inl ValueError
                | Some (lo, hi) \<Rightarrow>
                    Inr (s[self := (s ! self)
                           \<lparr>image_data :=
                              Some (map (\<lambda>v. np_div (np_minus lo v) (Fin (hi - lo))) d)\<rparr>],
                         self)))"

definition range_args :: normalise_args where
  "range_args =
     \<lparr>normalisation_method = Some ''range'', intensity_range = Some (- 1000, 1000),
      saturation_range = None, roi_mask = None\<rparr>"

definition none_args :: normalise_args where
  "none_args =
     \<lparr>normalisation_method = Some ''none'', intensity_range = None,
      saturation_range = None, roi_mask = None\<rparr>"

section \<open>Lemmas on the stack assembly\<close>

subsection \<open>The reordering step\<close>

lemma collect_cong_Inr:
  assumes "\<And>i. i \<in> set is \<Longrightarrow> g i = Inr (f i)"
  shows "collect (map g is) = Inr (map f is)"
  using assms by (induction "is") auto

lemma length_unsorted_table: "length (unsorted_table objs) = length objs"
  by (simp add: unsorted_table_def)

lemma length_position_table: "length (position_table objs) = length objs"
  by (simp add: position_table_def sort_values_def length_unsorted_table)

lemma set_position_table: "set (position_table objs) = set (unsorted_table objs)"
  by (simp add: position_table_def sort_values_def)

lemma slice_row_labels:
  "index_label (slice_row (ii, obj)) = ii" "original_object_order (slice_row (ii, obj)) = ii"
  by (auto simp: slice_row_def split: prod.splits)

lemma unsorted_row_order:
  "r \<in> set (unsorted_table objs) \<Longrightarrow> original_object_order r = index_label r"
  by (auto simp: unsorted_table_def slice_row_labels)

lemma unsorted_label_present:
  assumes "ii < length objs"
  shows "\<exists>r \<in> set (unsorted_table objs). index_label r = ii"
proof -
  have "(ii, objs ! ii) \<in> set (enumerate 0 objs)"
    using assms by (simp add: in_set_enumerate_eq)
  then have "slice_row (ii, objs ! ii) \<in> set (unsorted_table objs)"
    by (simp add: unsorted_table_def)
  then show ?thesis using slice_row_labels(1) by blast
qed

lemma series_getitem_label:
  assumes "ii < length objs"
  shows "series_getitem (position_table objs) ii = Inr ii"
proof -
  let ?t = "position_table objs"
  obtain r where r: "find (\<lambda>r. index_label r = ii) ?t = Some r"
    using unsorted_label_present[OF assms] set_position_table
    by (cases "find (\<lambda>r. index_label r = ii) ?t") (auto simp: find_None_iff)
  then have "index_label r = ii" "r \<in> set ?t"
    by (auto simp: find_Some_iff)
  then have "original_object_order r = ii"
    using unsorted_row_order set_position_table by auto
  with r show ?thesis by (simp add: series_getitem_def)
qed

lemma reorder_objects_same: "reorder_objects objs (position_table objs) = Inr objs"
proof -
  have "reorder_objects objs (position_table objs) = Inr (map (nth objs) [0..<length objs])"
    unfolding reorder_objects_def length_position_table
    by (rule collect_cong_Inr) (simp add: series_getitem_label bind_err_def list_getitem_def)
  then show ?thesis by (simp add: map_nth)
qed

subsection \<open>The sorted table and the sorted origins\<close>

lemma row_key_slice_row: "row_key (slice_row (ii, obj)) = canonical_origin obj"
  by (cases "GetOrigin (image_metadata obj)")
     (simp add: row_key_def slice_row_def canonical_origin_def)

lemma map_row_key_unsorted: "map row_key (unsorted_table objs) = map canonical_origin objs"
proof -
  have "row_key (slice_row p) = canonical_origin (snd p)" for p
    by (cases p) (simp add: row_key_slice_row)
  then have "map row_key (unsorted_table objs) =
      map (\<lambda>p. canonical_origin (snd p)) (enumerate 0 objs)"
    by (simp add: unsorted_table_def)
  also have "\<dots> = map canonical_origin (map snd (enumerate 0 objs))"
    by (simp only: map_map comp_def)
  finally show ?thesis by (simp only: map_snd_enumerate)
qed

lemma map_insort_key: "map f (insort_key f x xs) = insort (f x) (map f xs)"
  by (induction xs) simp_all

lemma map_key_sort_key: "map f (sort_key f xs) = sort (map f xs)"
  by (induction xs) (simp_all add: map_insort_key)

lemma position_table_keys: "map row_key (position_table objs) = sorted_origins objs"
  by (simp add: position_table_def sort_values_def map_key_sort_key map_row_key_unsorted
      sorted_origins_def)

lemma length_sorted_origins: "length (sorted_origins objs) = length objs"
  by (simp add: sorted_origins_def)

subsection \<open>Column-wise and row-wise differences\<close>

lemma image_slice_spacing_rows:
  "image_slice_spacing t = consecutive_distances (map row_key t)"
  by (induction t rule: induct_list012)
     (simp_all add: image_slice_spacing_def consecutive_distances_def np_diff_def row_key_def
        add.commute add.left_commute)

lemma np_diff_axis:
  "np_diff (map position_z t) = map2 (\<lambda>p q. axis_z q - axis_z p) (map row_key t) (tl (map row_key t))"
  "np_diff (map position_y t) = map2 (\<lambda>p q. axis_y q - axis_y p) (map row_key t) (tl (map row_key t))"
  "np_diff (map position_x t) = map2 (\<lambda>p q. axis_x q - axis_x p) (map row_key t) (tl (map row_key t))"
  by (induction t rule: induct_list012; simp add: np_diff_def row_key_def)+

lemma length_np_diff: "length (np_diff xs) = length xs - 1"
  by (simp add: np_diff_def)

lemma length_consecutive_distances: "length (consecutive_distances ps) = length ps - 1"
  by (simp add: consecutive_distances_def)

lemma np_min_smallest_delta:
  assumes "2 \<le> length t"
  shows "np_min (np_diff (map position_z t)) = Inr (smallest_delta axis_z (map row_key t))"
    and "np_min (np_diff (map position_y t)) = Inr (smallest_delta axis_y (map row_key t))"
    and "np_min (np_diff (map position_x t)) = Inr (smallest_delta axis_x (map row_key t))"
proof -
  have ne: "np_diff (map f t) \<noteq> []" for f :: "table_row \<Rightarrow> real"
    using assms length_np_diff[of "map f t"] by (cases "np_diff (map f t)") auto
  show "np_min (np_diff (map position_z t)) = Inr (smallest_delta axis_z (map row_key t))"
    using ne[of position_z]
    by (simp add: np_min_def min_list_Min smallest_delta_def flip: np_diff_axis(1))
  show "np_min (np_diff (map position_y t)) = Inr (smallest_delta axis_y (map row_key t))"
    using ne[of position_y]
    by (simp add: np_min_def min_list_Min smallest_delta_def flip: np_diff_axis(2))
  show "np_min (np_diff (map position_x t)) = Inr (smallest_delta axis_x (map row_key t))"
    using ne[of position_x]
    by (simp add: np_min_def min_list_Min smallest_delta_def flip: np_diff_axis(3))
qed

lemma z_orientation_row:
  assumes "2 \<le> length t"
  shows "z_orientation t rs = Inr (rounded_delta_row (map row_key t) rs)"
  by (simp add: z_orientation_def np_min_smallest_delta[OF assms] bind_err_def
      rounded_delta_row_def)

lemma assembled_orientation_rows:
  assumes "2 \<le> length t"
  shows "assembled_orientation md t rs =
     Inr ((reversed_direction (GetDirection md))[0 := rounded_delta_row (map row_key t) rs])"
  by (cases "GetDirection md" rule: ravel33.cases)
     (simp add: assembled_orientation_def z_orientation_row[OF assms] bind_err_def)

subsection \<open>Multipliers and the resolved spacing\<close>

lemma mask_select_filter: "mask_select xs (map p xs) = filter p xs"
  by (induction xs) (simp_all add: mask_select_def)

lemma resolved_spacing_mean:
  assumes "gaps \<noteq> []"
  shows "resolved_spacing gaps (spacing_multiplier gaps (min_list gaps)) =
     mean_of_regular_gaps gaps"
  using assms
  by (simp add: resolved_spacing_def spacing_multiplier_def mean_of_regular_gaps_def
      gap_multiplier_def min_list_Min mask_select_filter comp_def)

lemma irregular_some_gap:
  assumes "gaps \<noteq> []"
  shows "irregular (spacing_multiplier gaps (min_list gaps)) = some_gap_irregular gaps"
  using assms
  by (simp add: irregular_def spacing_multiplier_def some_gap_irregular_def gap_multiplier_def
      min_list_Min list_ex_iff del: np_div.simps)

lemma cumsum_from_sums:
  "cumsum_from acc xs = map (\<lambda>k. acc + sum_list (take (Suc k) xs)) [0..<length xs]"
proof (induction xs arbitrary: acc)
  case Nil
  then show ?case by simp
next
  case (Cons x xs)
  have "[0..<length (x # xs)] = 0 # map Suc [0..<length xs]"
    by (simp add: upt_conv_Cons map_Suc_upt del: upt_Suc)
  then show ?case by (simp add: Cons.IH comp_def add.assoc)
qed

lemma recorded_positions_cumulative: "recorded_positions gaps = cumulative_positions gaps"
proof -
  have "[0..<Suc (length gaps)] = 0 # map Suc [0..<length gaps]"
    by (simp add: upt_conv_Cons map_Suc_upt del: upt_Suc)
  then show ?thesis
    by (simp add: recorded_positions_def np_cumsum_def cumsum_from_sums cumulative_positions_def
        comp_def del: upt_Suc)
qed

lemma assembled_spacing_z:
  "\<exists>sy sx. assembled_spacing md rs = (rs, sy, sx)"
proof (cases "GetSpacing md")
  case (fields x y z)
  show ?thesis
  proof (cases "np_eq (Fin z) rs")
    case True
    then have "rs = Fin z" by (cases rs) simp_all
    with fields True show ?thesis by (simp add: assembled_spacing_def)
  next
    case False
    with fields show ?thesis by (simp add: assembled_spacing_def)
  qed
qed

lemma stack_gaps_table:
  "image_slice_spacing (position_table (image_file_objects st)) = stack_gaps st"
  by (simp add: image_slice_spacing_rows position_table_keys stack_gaps_def)

lemma length_stack_gaps: "length (stack_gaps st) = length (image_file_objects st) - 1"
  by (simp add: stack_gaps_def length_consecutive_distances length_sorted_origins)

lemma complete_geometry_single:
  assumes "length (image_file_objects st) = 1"
  shows "complete_geometry st = Inl ValueError"
proof -
  have "stack_gaps st = []"
    using assms length_stack_gaps[of st] by simp
  moreover have "list_getitem (image_file_objects st) 0 = Inr (hd (image_file_objects st))"
    using assms by (cases "image_file_objects st") (simp_all add: list_getitem_def)
  ultimately show ?thesis
    by (simp add: complete_geometry_def Let_def reorder_objects_same bind_err_def
        stack_gaps_table np_min_def)
qed

lemma complete_geometry_empty:
  assumes "image_file_objects st = []"
  shows "complete_geometry st = Inl IndexError"
  using assms
  by (simp add: complete_geometry_def Let_def reorder_objects_same bind_err_def
      list_getitem_def)

lemma complete_geometry_result:
  assumes "2 \<le> length (image_file_objects st)"
  shows "complete_geometry st =
     Inr (st\<lparr>image_file_objects := image_file_objects st,
             image_origin := Some (canonical_origin (hd (image_file_objects st))),
             image_spacing :=
               Some (assembled_spacing (image_metadata (hd (image_file_objects st)))
                 (mean_of_regular_gaps (stack_gaps st))),
             image_orientation :=
               Some ((reversed_direction (GetDirection (image_metadata (hd (image_file_objects st)))))
                 [0 := rounded_delta_row (sorted_origins (image_file_objects st))
                         (mean_of_regular_gaps (stack_gaps st))]),
             image_dimension :=
               Some (assembled_dimension (stack_image_metadata st)
                 (position_table (image_file_objects st))),
             slice_positions :=
               (if some_gap_irregular (stack_gaps st)
                then Some (cumulative_positions (stack_gaps st)) else slice_positions st),
             emitted :=
               (if some_gap_irregular (stack_gaps st)
                then emitted st @ [InconsistentSliceDistance (np_unique (stack_gaps st))]
                else emitted st)\<rparr>)"
proof -
  let ?objs = "image_file_objects st"
  let ?t = "position_table ?objs"
  have len: "2 \<le> length ?t" using assms by (simp add: length_position_table)
  have ne: "stack_gaps st \<noteq> []"
    using assms length_stack_gaps[of st] by (cases "stack_gaps st") auto
  have first: "list_getitem ?objs 0 = Inr (hd ?objs)"
    using assms by (cases ?objs) (simp_all add: list_getitem_def)
  have mn: "np_min (stack_gaps st) = Inr (min_list (stack_gaps st))"
    using ne by (simp add: np_min_def)
  show ?thesis
    unfolding complete_geometry_def Let_def
    by (simp only: reorder_objects_same first stack_gaps_table mn bind_err_def sum.case
        assembled_orientation_rows[OF len] position_table_keys resolved_spacing_mean[OF ne]
        irregular_some_gap[OF ne] recorded_positions_cumulative canonical_origin_def)
qed

section \<open>Lemmas on the image objects\<close>






section \<open>Lemmas on the examples\<close>

lemmas example_defs = slice_at_def stack_of_def identity_direction_def canonical_origin_def

lemma complete_chk:
  "complete_geometry st = Inr st' \<Longrightarrow>
   complete chk st = (if chk st' then Inr st' else Inl CheckFailed)"
  by (simp add: complete_def bind_err_def)

lemma equal_gaps_regular:
  assumes "\<forall>d \<in> set gaps. \<forall>e \<in> set gaps. d = e"
  shows "\<not> some_gap_irregular gaps"
proof
  assume "some_gap_irregular gaps"
  then obtain d where d: "d \<in> set gaps" "np_gt (gap_multiplier gaps d) (12 / 10)"
    by (auto simp: some_gap_irregular_def)
  have "Min (set gaps) \<in> set gaps"
    using d(1) by (intro Min_in) auto
  then have "Min (set gaps) = d" using assms d(1) by blast
  with d(2) show False by (cases "d = 0") (simp_all add: gap_multiplier_def)
qed

lemma np_unique_distinct: "distinct (np_unique xs) \<and> set (np_unique xs) = set xs"
  by (simp add: np_unique_def)

lemma example_initial:
  "emitted (stack_of objs) = []" "slice_positions (stack_of objs) = None"
  by (simp_all add: stack_of_def)

subsection \<open>Three slices at z = 1, 0, 2\<close>

lemma regular_len: "2 \<le> length (image_file_objects regular_stack)"
  by (simp add: regular_stack_def stack_of_def)

lemma regular_origins:
  "sorted_origins (image_file_objects regular_stack) = [(0, 0, 0), (1, 0, 0), (2, 0, 0)]"
  by (simp add: regular_stack_def example_defs sorted_origins_def less_eq_prod_def)

lemma regular_gaps: "stack_gaps regular_stack = [1, 1]"
  by (simp add: stack_gaps_def regular_origins consecutive_distances_def)

lemma regular_mean: "mean_of_regular_gaps (stack_gaps regular_stack) = Fin 1"
  by (simp add: regular_gaps mean_of_regular_gaps_def gap_multiplier_def np_mean_def
      around5_def rint_def)

lemma regular_not_irregular: "\<not> some_gap_irregular (stack_gaps regular_stack)"
  by (simp add: regular_gaps some_gap_irregular_def gap_multiplier_def)

subsection \<open>Three slices at z = 0, 1, 3\<close>

lemma missing_len: "2 \<le> length (image_file_objects missing_slice_stack)"
  by (simp add: missing_slice_stack_def stack_of_def)

lemma missing_origins:
  "sorted_origins (image_file_objects missing_slice_stack) = [(0, 0, 0), (1, 0, 0), (3, 0, 0)]"
  by (simp add: missing_slice_stack_def example_defs sorted_origins_def less_eq_prod_def)

lemma missing_gaps: "stack_gaps missing_slice_stack = [1, 2]"
  by (simp add: stack_gaps_def missing_origins consecutive_distances_def)

lemma missing_irregular: "some_gap_irregular (stack_gaps missing_slice_stack)"
  by (simp add: missing_gaps some_gap_irregular_def gap_multiplier_def)

lemma missing_positions: "cumulative_positions (stack_gaps missing_slice_stack) = [0, 1, 3]"
  by (simp add: missing_gaps cumulative_positions_def around5_def rint_def upt_conv_Cons)

subsection \<open>Two slices at z = 0 and z = 0.123456\<close>

lemma fraction_len: "2 \<le> length (image_file_objects fraction_stack)"
  by (simp add: fraction_stack_def stack_of_def)

lemma fraction_origins:
  "sorted_origins (image_file_objects fraction_stack) = [(0, 0, 0), (123456 / 1000000, 0, 0)]"
  by (simp add: fraction_stack_def example_defs sorted_origins_def less_eq_prod_def)

lemma fraction_gaps: "stack_gaps fraction_stack = [123456 / 1000000]"
  by (simp add: stack_gaps_def fraction_origins consecutive_distances_def)

lemma fraction_mean: "mean_of_regular_gaps (stack_gaps fraction_stack) = Fin (12346 / 100000)"
  by (simp add: fraction_gaps mean_of_regular_gaps_def gap_multiplier_def np_mean_def
      around5_def rint_def)

lemma fraction_rounded_row:
  "rounded_delta_row (sorted_origins (image_file_objects fraction_stack))
     (mean_of_regular_gaps (stack_gaps fraction_stack)) = [Fin 1, Fin 0, Fin 0]"
  by (simp add: fraction_mean fraction_origins rounded_delta_row_def smallest_delta_def
      around5_def rint_def)

lemma fraction_plain_row:
  "plain_delta_row (sorted_origins (image_file_objects fraction_stack))
     (mean_of_regular_gaps (stack_gaps fraction_stack)) = [Fin (123456 / 123460), Fin 0, Fin 0]"
  by (simp add: fraction_mean fraction_origins plain_delta_row_def smallest_delta_def)

lemma fraction_first:
  "first_sorted_slice (image_file_objects fraction_stack) = slice_at ''a'' (0, 0, 0) (1, 1, 1)"
  by (simp add: first_sorted_slice_def fraction_stack_def example_defs less_eq_prod_def)

lemma fraction_head:
  "hd (image_file_objects fraction_stack) = slice_at ''a'' (0, 0, 0) (1, 1, 1)"
  by (simp add: fraction_stack_def stack_of_def)

lemma identity_reversed:
  "reversed_direction (GetDirection (image_metadata (slice_at name origin spacing))) =
     [[Fin 1, Fin 0, Fin 0], [Fin 0, Fin 1, Fin 0], [Fin 0, Fin 0, Fin 1]]"
  by (simp add: slice_at_def identity_direction_def)

subsection \<open>Two slices given in descending order of z\<close>

lemma swapped_len: "2 \<le> length (image_file_objects swapped_stack)"
  by (simp add: swapped_stack_def stack_of_def)

lemma swapped_origins:
  "sorted_origins (image_file_objects swapped_stack) = [(0, 0, 0), (2, 0, 0)]"
  by (simp add: swapped_stack_def example_defs sorted_origins_def less_eq_prod_def)

lemma swapped_gaps: "stack_gaps swapped_stack = [2]"
  by (simp add: stack_gaps_def swapped_origins consecutive_distances_def)

lemma swapped_mean: "mean_of_regular_gaps (stack_gaps swapped_stack) = Fin 2"
  by (simp add: swapped_gaps mean_of_regular_gaps_def gap_multiplier_def np_mean_def
      around5_def rint_def)

lemma swapped_first:
  "first_sorted_slice (image_file_objects swapped_stack) =
     slice_at ''lower'' (0, 0, 0) (7 / 10, 7 / 10, 3)"
  by (simp add: first_sorted_slice_def swapped_stack_def example_defs less_eq_prod_def)

lemma swapped_head:
  "hd (image_file_objects swapped_stack) = slice_at ''upper'' (0, 0, 2) (5 / 10, 5 / 10, 2)"
  by (simp add: swapped_stack_def stack_of_def)

section \<open>The claims\<close>

text \<open>
  C1. For a stack of at least two slices, \<open>complete\<close> assembles the geometry, and the
  z-component of the assembled spacing (the resolved slice spacing) is the mean, rounded
  to five decimals, of the Euclidean distances between consecutive sorted origins whose
  multiplier (the distance divided by the smallest distance) is at most 1.2; a gap with
  a larger multiplier does not enter the mean.
\<close>

theorem resolved_spacing_is_mean_of_regular_gaps:
  assumes "2 \<le> length (image_file_objects st)"
  shows "\<exists>st' sy sx. complete_geometry st = Inr st' \<and>
           complete chk st = (if chk st' then Inr st' else Inl CheckFailed) \<and>
           image_spacing st' = Some (mean_of_regular_gaps (stack_gaps st), sy, sx)"
proof -
  obtain sy sx where
    "assembled_spacing (image_metadata (hd (image_file_objects st)))
       (mean_of_regular_gaps (stack_gaps st)) = (mean_of_regular_gaps (stack_gaps st), sy, sx)"
    using assembled_spacing_z by blast
  then show ?thesis
    using complete_geometry_result[OF assms] complete_chk[of st _ chk] by force
qed

text \<open>The slices at z = 1, 0, 2: the resolved spacing is 1.\<close>

theorem resolved_spacing_is_mean_of_regular_gaps_witness:
  "2 \<le> length (image_file_objects regular_stack) \<and>
   (\<exists>st' sy sx. complete_geometry regular_stack = Inr st' \<and>
      complete (\<lambda>st. True) regular_stack = Inr st' \<and>
      image_spacing st' = Some (Fin 1, sy, sx))"
  using resolved_spacing_is_mean_of_regular_gaps[OF regular_len, of "\<lambda>st. True"] regular_len
  by (simp add: regular_mean)

text \<open>
  C2. The specification has \<open>complete\<close> put the slices in ascending order of the canonical
  origin. The code sorts the position table, but reads \<open>original_object_order\<close> by label,
  and the label of a row is the position the slice had in the input: the slice list is
  rebuilt in the order it came in. Two slices given in descending order of z stay in
  that order, while ascending order is the other one.
\<close>

theorem slices_keep_input_order:
  "map_sum id (map file_path \<circ> image_file_objects) (complete_geometry swapped_stack) =
     Inr [''upper'', ''lower''] \<and>
   map file_path (sort_key canonical_origin (image_file_objects swapped_stack)) =
     [''lower'', ''upper'']"
proof -
  have "map file_path (image_file_objects swapped_stack) = [''upper'', ''lower'']"
    by (simp add: swapped_stack_def stack_of_def slice_at_def)
  moreover have "map file_path (sort_key canonical_origin (image_file_objects swapped_stack)) =
     [''lower'', ''upper'']"
    by (simp add: swapped_stack_def example_defs less_eq_prod_def)
  ultimately show ?thesis
    by (simp add: complete_geometry_result[OF swapped_len])
qed

text \<open>
  C3. For a stack of at least two slices, the warning about inconsistent slice distances
  is emitted exactly when some gap multiplier exceeds 1.2; it names the distinct gap
  values, and in that case \<open>slice_positions\<close> is set to the cumulative sums of the gaps
  rounded to five decimals, starting with 0 for the first slice. Otherwise no warning is
  emitted and \<open>slice_positions\<close> is left as it was; this is so when all gaps are equal.
\<close>

theorem irregular_spacing_diagnostic:
  assumes "2 \<le> length (image_file_objects st)"
  shows "\<exists>st'. complete_geometry st = Inr st' \<and>
     (if some_gap_irregular (stack_gaps st)
      then (\<exists>vs. emitted st' = emitted st @ [InconsistentSliceDistance vs] \<and>
                 distinct vs \<and> set vs = set (stack_gaps st)) \<and>
           slice_positions st' = Some (cumulative_positions (stack_gaps st))
      else emitted st' = emitted st \<and> slice_positions st' = slice_positions st) \<and>
     ((\<forall>d \<in> set (stack_gaps st). \<forall>e \<in> set (stack_gaps st). d = e) \<longrightarrow>
        \<not> some_gap_irregular (stack_gaps st))"
  using complete_geometry_result[OF assms] equal_gaps_regular[of "stack_gaps st"]
    np_unique_distinct[of "stack_gaps st"]
  by auto

text \<open>
  The slices at z = 0, 1, 3 give the gaps 1 and 2: the warning names them and the
  positions 0, 1, 3 are recorded. The slices at z = 1, 0, 2 give equal gaps: no warning
  and no positions.
\<close>

theorem irregular_spacing_diagnostic_witness:
  "2 \<le> length (image_file_objects missing_slice_stack) \<and>
   some_gap_irregular (stack_gaps missing_slice_stack) \<and>
   (\<exists>st'. complete_geometry missing_slice_stack = Inr st' \<and>
      (\<exists>vs. emitted st' = [InconsistentSliceDistance vs] \<and> distinct vs \<and> set vs = {1, 2}) \<and>
      slice_positions st' = Some [0, 1, 3]) \<and>
   2 \<le> length (image_file_objects regular_stack) \<and>
   stack_gaps regular_stack = [1, 1] \<and>
   (\<exists>st'. complete_geometry regular_stack = Inr st' \<and> emitted st' = [] \<and>
      slice_positions st' = None)"
proof -
  have a: "emitted missing_slice_stack = []" "slice_positions regular_stack = None"
    "emitted regular_stack = []"
    by (simp_all add: missing_slice_stack_def regular_stack_def example_initial)
  have b: "set (stack_gaps missing_slice_stack) = {1, 2}"
    by (simp add: missing_gaps insert_commute)
  have c: "\<forall>d \<in> set (stack_gaps regular_stack). \<forall>e \<in> set (stack_gaps regular_stack). d = e"
    by (simp add: regular_gaps)
  have "2 \<le> length (image_file_objects missing_slice_stack) \<and>
   some_gap_irregular (stack_gaps missing_slice_stack) \<and>
   (\<exists>st'. complete_geometry missing_slice_stack = Inr st' \<and>
      (\<exists>vs. emitted st' = [InconsistentSliceDistance vs] \<and> distinct vs \<and> set vs = {1, 2}) \<and>
      slice_positions st' = Some [0, 1, 3]) \<and>
   2 \<le> length (image_file_objects regular_stack) \<and>
   (\<exists>st'. complete_geometry regular_stack = Inr st' \<and> emitted st' = [] \<and>
      slice_positions st' = None)"
    using irregular_spacing_diagnostic[OF missing_len] irregular_spacing_diagnostic[OF regular_len]
    by (simp add: missing_len regular_len missing_irregular regular_not_irregular
        missing_positions a b c)
  then show ?thesis by (simp add: regular_gaps)
qed

text \<open>
  C4, as amended. For a stack of at least two slices, the assembled orientation is a 3 by
  3 matrix. Its rows 1 and 2 are those of the direction matrix, flattened, reversed and
  reshaped, of the slice that heads the stack's slice list. Its row 0 holds, for the
  axes z, y and x, the smallest difference between consecutive sorted positions along the
  axis, rounded to five decimals and then divided by the resolved slice spacing.
\<close>

theorem orientation_from_rounded_deltas:
  assumes "2 \<le> length (image_file_objects st)"
  shows "\<exists>st' m. complete_geometry st = Inr st' \<and> image_orientation st' = Some m \<and>
     length m = 3 \<and>
     m ! 0 = rounded_delta_row (sorted_origins (image_file_objects st))
               (mean_of_regular_gaps (stack_gaps st)) \<and>
     (\<forall>k \<in> {1, 2}.
        m ! k = reversed_direction
                  (GetDirection (image_metadata (hd (image_file_objects st')))) ! k)"
proof -
  have "length (reversed_direction d) = 3" for d
    by (cases d rule: reversed_direction.cases) simp
  then show ?thesis
    using complete_geometry_result[OF assms] by simp
qed

text \<open>The slices at z = 0 and z = 0.123456 with the identity direction matrix.\<close>

theorem orientation_from_rounded_deltas_witness:
  "2 \<le> length (image_file_objects fraction_stack) \<and>
   (\<exists>st' m. complete_geometry fraction_stack = Inr st' \<and> image_orientation st' = Some m \<and>
      m ! 0 = [Fin 1, Fin 0, Fin 0] \<and> m ! 1 = [Fin 0, Fin 1, Fin 0] \<and>
      m ! 2 = [Fin 0, Fin 0, Fin 1])"
proof -
  obtain st' m where r: "complete_geometry fraction_stack = Inr st'"
    "image_orientation st' = Some m"
    "m ! 0 = rounded_delta_row (sorted_origins (image_file_objects fraction_stack))
               (mean_of_regular_gaps (stack_gaps fraction_stack))"
    "\<forall>k \<in> {1, 2}. m ! k = reversed_direction
                  (GetDirection (image_metadata (hd (image_file_objects st')))) ! k"
    using orientation_from_rounded_deltas[OF fraction_len] by blast
  have "image_file_objects st' = image_file_objects fraction_stack"
    using r(1) complete_geometry_result[OF fraction_len] by auto
  then have "hd (image_file_objects st') = slice_at ''a'' (0, 0, 0) (1, 1, 1)"
    by (simp add: fraction_head)
  then have "m ! 1 = [Fin 0, Fin 1, Fin 0]" "m ! 2 = [Fin 0, Fin 0, Fin 1]"
    using r(4) by (simp_all add: identity_reversed)
  moreover have "m ! 0 = [Fin 1, Fin 0, Fin 0]"
    using r(3) by (simp add: fraction_rounded_row)
  ultimately show ?thesis using r(1,2) fraction_len by blast
qed

text \<open>
  C4 as the specification states it (row 0 holds the smallest deltas divided by the
  resolved spacing) fails for the slices at z = 0 and z = 0.123456: the resolved spacing
  is 0.12346, the code's row 0 starts with 0.12346 / 0.12346 = 1, the stated one with
  0.123456 / 0.12346.
\<close>

theorem orientation_plain_deltas_counterexample:
  "map_sum id image_orientation (complete_geometry fraction_stack) =
     Inr (Some [[Fin 1, Fin 0, Fin 0], [Fin 0, Fin 1, Fin 0], [Fin 0, Fin 0, Fin 1]]) \<and>
   claimed_orientation fraction_stack =
     [[Fin (123456 / 123460), Fin 0, Fin 0], [Fin 0, Fin 1, Fin 0], [Fin 0, Fin 0, Fin 1]] \<and>
   map_sum id image_orientation (complete_geometry fraction_stack) \<noteq>
     Inr (Some (claimed_orientation fraction_stack))"
proof -
  have code: "map_sum id image_orientation (complete_geometry fraction_stack) =
     Inr (Some [[Fin 1, Fin 0, Fin 0], [Fin 0, Fin 1, Fin 0], [Fin 0, Fin 0, Fin 1]])"
    by (simp add: complete_geometry_result[OF fraction_len] fraction_head identity_reversed
        fraction_rounded_row)
  have spec: "claimed_orientation fraction_stack =
     [[Fin (123456 / 123460), Fin 0, Fin 0], [Fin 0, Fin 1, Fin 0], [Fin 0, Fin 0, Fin 1]]"
    by (simp add: claimed_orientation_def fraction_first identity_reversed fraction_plain_row)
  show ?thesis by (simp add: code spec)
qed




text \<open>
  C6. When the normalisation method is absent or \<open>"none"\<close>, and when the scale is 1, the
  CT method returns the receiver itself, and the store is the one the parent's method
  left: the CT method changes no object, so the receiver keeps its class.
\<close>

theorem identity_cases_return_self:
  "(super_n args s self = Inr (s1, img) \<and>
      (normalisation_method args = None \<or> normalisation_method args = Some ''none'') \<longrightarrow>
        normalise_intensities super_n args s self = Inr (s1, self)) \<and>
   (super_s 1 s self = Inr (s1, img) \<longrightarrow> scale_intensities super_s 1 s self = Inr (s1, self))"
  by (simp add: normalise_intensities_def scale_intensities_def bind_err_def)

text \<open>
  With parents that leave the store alone in the identity case, the CT image comes back
  unchanged, with the class \<open>CTImage\<close>.
\<close>

theorem identity_cases_return_self_witness:
  "normalise_in_place none_args [ct_volume (voxels [- 1000, 0, 40])] 0 =
     Inr ([ct_volume (voxels [- 1000, 0, 40])], 0) \<and>
   normalisation_method none_args = Some ''none'' \<and>
   normalise_intensities normalise_in_place none_args [ct_volume (voxels [- 1000, 0, 40])] 0 =
     Inr ([ct_volume (voxels [- 1000, 0, 40])], 0) \<and>
   scale_in_place 1 [ct_volume (voxels [- 1000, 0, 40])] 0 =
     Inr ([ct_volume (voxels [- 1000, 0, 40])], 0) \<and>
   scale_intensities scale_in_place 1 [ct_volume (voxels [- 1000, 0, 40])] 0 =
     Inr ([ct_volume (voxels [- 1000, 0, 40])], 0) \<and>
   obj_class ([ct_volume (voxels [- 1000, 0, 40])] ! 0) = CTImage"
proof -
  let ?s = "[ct_volume (voxels [- 1000, 0, 40])]"
  have a: "normalise_in_place none_args ?s 0 = Inr (?s, 0)"
    "normalisation_method none_args = Some ''none''"
    "scale_in_place 1 ?s 0 = Inr (?s, 0)" "obj_class (?s ! 0) = CTImage"
    by (simp_all add: normalise_in_place_def scale_in_place_def none_args_def ct_volume_def voxels_def)
  show ?thesis
    using identity_cases_return_self[where super_n = normalise_in_place and args = none_args
        and s = ?s and self = 0 and ?s1.0 = ?s and img = 0 and super_s = scale_in_place] a
    by simp
qed

text \<open>
  C7, as amended. For a stack of exactly one slice the sequence of gaps is empty, its
  minimum is taken all the same and raises ValueError: \<open>complete\<close> ends with that error,
  whatever the final check would say, before a spacing, an orientation or a dimension is
  set.
\<close>

theorem single_slice_raises:
  assumes "length (image_file_objects st) = 1"
  shows "stack_gaps st = [] \<and> complete_geometry st = Inl ValueError \<and>
         complete chk st = Inl ValueError"
  using assms complete_geometry_single[OF assms] length_stack_gaps[of st]
  by (simp add: complete_def bind_err_def)

theorem single_slice_raises_witness:
  "length (image_file_objects single_slice_stack) = 1 \<and>
   stack_gaps single_slice_stack = [] \<and>
   complete (\<lambda>st. True) single_slice_stack = Inl ValueError"
proof -
  have "length (image_file_objects single_slice_stack) = 1"
    by (simp add: single_slice_stack_def stack_of_def)
  then show ?thesis
    using single_slice_raises[of single_slice_stack "\<lambda>st. True"] by simp
qed

text \<open>
  C7 as the specification states it (a single slice is assembled without error) fails
  for the stack of one slice.
\<close>

theorem single_slice_completes_counterexample:
  "complete_geometry single_slice_stack = Inl ValueError"
  by (simp add: complete_geometry_single single_slice_stack_def stack_of_def)

text \<open>
  C8. The specification compares the resolved spacing with the nominal z-spacing of the
  first sorted slice and takes the in-plane spacing from that slice. The code reads
  \<open>image_file_objects[0]\<close>, which is the first slice of the input (see C2). For two slices
  given in descending order of z, with nominal spacings (2, 0.5, 0.5) and (3, 0.7, 0.7)
  in the order z, y, x, the resolved spacing is 2: the code assembles (2, 0.5, 0.5), the
  first sorted slice gives (2, 0.7, 0.7).
\<close>

theorem spacing_from_first_input_slice:
  "map_sum id image_spacing (complete_geometry swapped_stack) =
     Inr (Some (Fin 2, Fin (5 / 10), Fin (5 / 10))) \<and>
   claimed_spacing swapped_stack = (Fin 2, Fin (7 / 10), Fin (7 / 10))"
proof -
  have "assembled_spacing (image_metadata (slice_at ''upper'' (0, 0, 2) (5 / 10, 5 / 10, 2)))
      (mean_of_regular_gaps (stack_gaps swapped_stack)) = (Fin 2, Fin (5 / 10), Fin (5 / 10))"
    by (simp add: swapped_mean assembled_spacing_def slice_at_def)
  moreover have "claimed_spacing swapped_stack = (Fin 2, Fin (7 / 10), Fin (7 / 10))"
    by (simp add: claimed_spacing_def swapped_first swapped_mean assembled_spacing_def
        slice_at_def)
  ultimately show ?thesis
    by (simp add: complete_geometry_result[OF swapped_len] swapped_head)
qed




text \<open>
  C10. On a CT image without voxel data \<open>update_image_data\<close> changes nothing. When the
  image that the parent's method returned holds no voxel data, \<open>normalise_intensities\<close>
  (whatever the method) and \<open>scale_intensities\<close> (whatever the scale) return the receiver
  itself and the store as the parent's method left it: no generic image is built.
\<close>

theorem no_demotion_without_data:
  "(image_data (s ! self) = None \<longrightarrow> update_image_data s self = s) \<and>
   (super_n args s self = Inr (s1, img) \<and> image_data (s1 ! img) = None \<longrightarrow>
      normalise_intensities super_n args s self = Inr (s1, self)) \<and>
   (super_s scale s self = Inr (s1, img) \<and> image_data (s1 ! img) = None \<longrightarrow>
      scale_intensities super_s scale s self = Inr (s1, self))"
  by (simp add: update_image_data_def normalise_intensities_def scale_intensities_def
      bind_err_def)

text \<open>A CT image without data, the method \<open>"range"\<close> and the scale 2.\<close>

theorem no_demotion_without_data_witness:
  "image_data ([ct_volume None] ! 0) = None \<and>
   update_image_data [ct_volume None] 0 = [ct_volume None] \<and>
   normalise_in_place range_args [ct_volume None] 0 = Inr ([ct_volume None], 0) \<and>
   normalise_intensities normalise_in_place range_args [ct_volume None] 0 =
     Inr ([ct_volume None], 0) \<and>
   scale_in_place 2 [ct_volume None] 0 = Inr ([ct_volume None], 0) \<and>
   scale_intensities scale_in_place 2 [ct_volume None] 0 = Inr ([ct_volume None], 0)"
proof -
  let ?s = "[ct_volume None]"
  have a: "image_data (?s ! 0) = None" "normalise_in_place range_args ?s 0 = Inr (?s, 0)"
    "scale_in_place 2 ?s 0 = Inr (?s, 0)"
    by (simp_all add: normalise_in_place_def scale_in_place_def ct_volume_def voxels_def)
  show ?thesis
    using no_demotion_without_data[where s = ?s and self = 0 and super_n = normalise_in_place
        and args = range_args and ?s1.0 = ?s and img = 0 and super_s = scale_in_place
        and scale = 2] a
    by simp
qed

end
